theory Spec2Isabelle
  imports Main "HOL-Library.AList"
begin

section \<open>Telegram exec approvals: callback codec\<close>

text \<open>
  The embedding follows \<^verbatim>\<open>src/telegram/monitor/exec-approvals.ts\<close>.
  A JavaScript string is a list of characters (one \<^typ>\<open>char\<close> per code unit), so
  \<^verbatim>\<open>s.slice(0, 8)\<close> is \<^term>\<open>take 8 s\<close>. The type
  \<^verbatim>\<open>ExecApprovalDecision\<close> is the union of the three literals the code compares with.
\<close>

datatype ExecApprovalDecision = AllowOnce | AllowAlways | Deny

text \<open>
  The tests call the parser with \<^verbatim>\<open>null\<close> and \<^verbatim>\<open>undefined\<close> as well as with
  strings, so an argument is one of the three.
\<close>

datatype js_string = Undefined | Null | Str string

definition EXEC_APPROVAL_PREFIX :: string where
  "EXEC_APPROVAL_PREFIX = ''ea''"

text \<open>\<^verbatim>\<open>s.slice(a, b)\<close> for indices \<open>0 \<le> a \<le> b\<close>.\<close>

definition slice :: "string \<Rightarrow> nat \<Rightarrow> nat \<Rightarrow> string" where
  "slice s a b = take (b - a) (drop a s)"

text \<open>\<^verbatim>\<open>s.startsWith(p)\<close>.\<close>

definition startsWith :: "string \<Rightarrow> string \<Rightarrow> bool" where
  "startsWith s p = (take (length p) s = p)"

text \<open>\<^verbatim>\<open>s.includes(p)\<close>: \<open>p\<close> occurs in \<open>s\<close> at some position.\<close>

fun js_includes :: "string \<Rightarrow> string \<Rightarrow> bool" where
  "js_includes [] p = (p = [])"
| "js_includes (c # cs) p = (startsWith (c # cs) p \<or> js_includes cs p)"

text \<open>
  \<^verbatim>\<open>s.split(sep)\<close> for a one-character separator: the fields between the separators,
  so that the empty string gives one empty field.
\<close>

fun js_split :: "char \<Rightarrow> string \<Rightarrow> string list" where
  "js_split sep [] = [[]]"
| "js_split sep (c # cs) =
     (if c = sep then [] # js_split sep cs
      else (case js_split sep cs of
              [] \<Rightarrow> [[c]]
            | f # fs \<Rightarrow> (c # f) # fs))"

definition actionChar_of :: "ExecApprovalDecision \<Rightarrow> string" where
  "actionChar_of action =
     (if action = AllowOnce then ''o'' else if action = AllowAlways then ''a'' else ''d'')"

definition buildExecApprovalCallbackData :: "string \<Rightarrow> ExecApprovalDecision \<Rightarrow> string" where
  "buildExecApprovalCallbackData approvalId action =
     (let shortId = slice approvalId 0 8;
          actionChar = actionChar_of action
      in EXEC_APPROVAL_PREFIX @ '':'' @ shortId @ '':'' @ actionChar)"

text \<open>
  The parser returns the object \<^verbatim>\<open>{ shortId, action }\<close>, here a pair, or
  \<^verbatim>\<open>null\<close>, here \<^term>\<open>None\<close>. A falsy argument (\<^verbatim>\<open>undefined\<close>,
  \<^verbatim>\<open>null\<close>, the empty string) is rejected by the first test before any method is
  called on it.
\<close>

definition action_of_char :: "string \<Rightarrow> ExecApprovalDecision option" where
  "action_of_char actionChar =
     (if actionChar = ''o'' then Some AllowOnce
      else if actionChar = ''a'' then Some AllowAlways
      else if actionChar = ''d'' then Some Deny
      else None)"

fun parseExecApprovalCallbackData :: "js_string \<Rightarrow> (string \<times> ExecApprovalDecision) option" where
  "parseExecApprovalCallbackData Undefined = None"
| "parseExecApprovalCallbackData Null = None"
| "parseExecApprovalCallbackData (Str data) =
     (if data = [] \<or> \<not> startsWith data (EXEC_APPROVAL_PREFIX @ '':'') then None
      else (case js_split CHR '':'' data of
              [p0, shortId, actionChar] \<Rightarrow>
                (case action_of_char actionChar of
                   None \<Rightarrow> None
                 | Some action \<Rightarrow> if shortId = [] then None else Some (shortId, action))
            | _ \<Rightarrow> None))"

fun isExecApprovalCallbackData :: "js_string \<Rightarrow> bool" where
  "isExecApprovalCallbackData Undefined = False"
| "isExecApprovalCallbackData Null = False"
| "isExecApprovalCallbackData (Str data) = startsWith data (EXEC_APPROVAL_PREFIX @ '':'')"


section \<open>Filter engine\<close>

text \<open>
  \<^verbatim>\<open>TelegramExecApprovalConfig\<close> is declared in \<^verbatim>\<open>config/types.telegram.ts\<close>; the
  handler reads four optional fields of it. An absent \<^verbatim>\<open>enabled\<close> is falsy, so it is
  \<^term>\<open>False\<close>; an absent list is \<^term>\<open>None\<close>. An approver is only ever used as
  \<^verbatim>\<open>String(approver)\<close>, so the list holds these strings.
\<close>

record TelegramExecApprovalConfig =
  enabled :: bool
  approvers :: "string list option"
  agentFilter :: "string list option"
  sessionFilter :: "string list option"

text \<open>
  The optional fields of a request are only tested for truthiness and compared, so
  \<^verbatim>\<open>null\<close> and \<^verbatim>\<open>undefined\<close> are both \<^term>\<open>None\<close>.
\<close>

record ExecApprovalRequestData =
  command :: string
  cwd :: "string option"
  host :: "string option"
  security :: "string option"
  ask :: "string option"
  agentId :: "string option"
  resolvedPath :: "string option"
  sessionKey :: "string option"

record ExecApprovalRequest =
  request_id :: string
  request :: ExecApprovalRequestData
  createdAtMs :: int
  expiresAtMs :: int

record ExecApprovalResolved =
  resolved_id :: string
  decision :: ExecApprovalDecision
  resolvedBy :: "string option"
  ts :: int

text \<open>Truthiness of an optional string: absent and empty are falsy.\<close>

fun truthy :: "string option \<Rightarrow> bool" where
  "truthy None = False"
| "truthy (Some v) = (v \<noteq> [])"

text \<open>
  The regular-expression engine belongs to the JavaScript runtime. It is a parameter:
  \<open>regex p = None\<close> when \<^verbatim>\<open>new RegExp(p)\<close> throws a SyntaxError, and
  \<open>regex p = Some m\<close> when the pattern compiles and \<open>m\<close> is its \<^verbatim>\<open>test\<close>.
\<close>

type_synonym regexp_engine = "string \<Rightarrow> (string \<Rightarrow> bool) option"

datatype js_error = SyntaxError

definition RegExp_test :: "regexp_engine \<Rightarrow> string \<Rightarrow> string \<Rightarrow> js_error + bool" where
  "RegExp_test regex p session =
     (case regex p of None \<Rightarrow> Inl SyntaxError | Some m \<Rightarrow> Inr (m session))"

text \<open>
  The callback given to \<^verbatim>\<open>sessionFilter.some\<close>: the body of the \<^verbatim>\<open>try\<close> evaluates
  \<^verbatim>\<open>||\<close> left to right, the \<^verbatim>\<open>catch\<close> returns the substring test.
\<close>

definition sessionFilterTry :: "regexp_engine \<Rightarrow> string \<Rightarrow> string \<Rightarrow> js_error + bool" where
  "sessionFilterTry regex session p =
     (if js_includes session p then Inr True else RegExp_test regex p session)"

definition sessionFilterMatch :: "regexp_engine \<Rightarrow> string \<Rightarrow> string \<Rightarrow> bool" where
  "sessionFilterMatch regex session p =
     (case sessionFilterTry regex session p of
        Inr b \<Rightarrow> b
      | Inl e \<Rightarrow> js_includes session p)"

definition agentFilterRejects :: "TelegramExecApprovalConfig \<Rightarrow> ExecApprovalRequest \<Rightarrow> bool" where
  "agentFilterRejects config req =
     (case agentFilter config of
        None \<Rightarrow> False
      | Some af \<Rightarrow>
          length af \<noteq> 0 \<and>
          (case agentId (request req) of
             None \<Rightarrow> True
           | Some a \<Rightarrow> a = [] \<or> a \<notin> set af))"

definition sessionFilterRejects ::
  "regexp_engine \<Rightarrow> TelegramExecApprovalConfig \<Rightarrow> ExecApprovalRequest \<Rightarrow> bool" where
  "sessionFilterRejects regex config req =
     (case sessionFilter config of
        None \<Rightarrow> False
      | Some sf \<Rightarrow>
          length sf \<noteq> 0 \<and>
          (case sessionKey (request req) of
             None \<Rightarrow> True
           | Some session \<Rightarrow>
               session = [] \<or> \<not> list_ex (sessionFilterMatch regex session) sf))"

definition shouldHandle ::
  "regexp_engine \<Rightarrow> TelegramExecApprovalConfig \<Rightarrow> ExecApprovalRequest \<Rightarrow> bool" where
  "shouldHandle regex config req =
     (if \<not> enabled config then False
      else if (case approvers config of None \<Rightarrow> True | Some as \<Rightarrow> length as = 0) then False
      else if agentFilterRejects config req then False
      else if sessionFilterRejects regex config req then False
      else True)"

section \<open>Handler state and effects\<close>

text \<open>
  The formatted HTML of a message depends on the clock and on rounding; a message text is
  kept as the formatter that builds it together with the formatter's arguments
  (\<^verbatim>\<open>formatExecApprovalMessage\<close>, \<^verbatim>\<open>formatResolvedMessage\<close>,
  \<^verbatim>\<open>formatExpiredMessage\<close>). An inline keyboard is kept as the rows of
  \<^verbatim>\<open>callback_data\<close> of its buttons.
\<close>

datatype message_text =
    ExecApprovalMessage ExecApprovalRequest
  | ResolvedMessage ExecApprovalRequest ExecApprovalDecision "string option"
  | ExpiredMessage ExecApprovalRequest

definition buildInlineKeyboard :: "string \<Rightarrow> string list list" where
  "buildInlineKeyboard approvalId =
     [[buildExecApprovalCallbackData approvalId AllowOnce,
       buildExecApprovalCallbackData approvalId AllowAlways,
       buildExecApprovalCallbackData approvalId Deny]]"

text \<open>Every call the handler makes on a collaborator, in the order it makes them.\<close>

datatype effect =
    SendMessage string message_text "string list list"
  | EditMessageText string int message_text "string list list"
  | GatewayRequest string ExecApprovalDecision
  | GatewayClientStart
  | GatewayClientStop
  | LogDebug string
  | LogError string

record PendingApproval =
  telegramMessageId :: int
  telegramChatId :: string
  timeoutId :: nat

text \<open>
  A timer armed by \<^verbatim>\<open>setTimeout\<close>: the request id its closure captured, and its delay.
\<close>

record Timeout =
  timeout_approvalId :: string
  timeout_ms :: int

text \<open>
  The three \<^verbatim>\<open>Map\<close>s of the class are association lists used through
  \<^const>\<open>AList.update\<close>, \<^const>\<open>AList.delete\<close> and \<^const>\<open>map_of\<close>: as in
  JavaScript, setting an existing key replaces its value in place, and the values can be
  iterated. \<open>timers\<close> is the runtime's table of armed timers, \<open>nextTimeoutId\<close> the next
  handle \<^verbatim>\<open>setTimeout\<close> returns, \<open>gatewayClient\<close> whether the field is non-null.
\<close>

record handler_state =
  gatewayClient :: bool
  pending :: "(string \<times> PendingApproval) list"
  requestCache :: "(string \<times> ExecApprovalRequest) list"
  shortIdMap :: "(string \<times> string) list"
  started :: bool
  timers :: "(nat \<times> Timeout) list"
  nextTimeoutId :: nat
  effects :: "effect list"

definition initial_state :: handler_state where
  "initial_state =
     \<lparr>gatewayClient = False, pending = [], requestCache = [], shortIdMap = [],
      started = False, timers = [], nextTimeoutId = 0, effects = []\<rparr>"

definition emit :: "effect \<Rightarrow> handler_state \<Rightarrow> handler_state" where
  "emit e s = s\<lparr>effects := effects s @ [e]\<rparr>"

definition setTimeout :: "string \<Rightarrow> int \<Rightarrow> handler_state \<Rightarrow> nat \<times> handler_state" where
  "setTimeout approvalId ms s =
     (nextTimeoutId s,
      s\<lparr>timers := AList.update (nextTimeoutId s)
                      \<lparr>timeout_approvalId = approvalId, timeout_ms = ms\<rparr> (timers s),
        nextTimeoutId := Suc (nextTimeoutId s)\<rparr>)"

definition clearTimeout :: "nat \<Rightarrow> handler_state \<Rightarrow> handler_state" where
  "clearTimeout t s = s\<lparr>timers := AList.delete t (timers s)\<rparr>"

definition decision_text :: "ExecApprovalDecision \<Rightarrow> string" where
  "decision_text d =
     (case d of AllowOnce \<Rightarrow> ''allow-once'' | AllowAlways \<Rightarrow> ''allow-always'' | Deny \<Rightarrow> ''deny'')"

section \<open>The handler\<close>

text \<open>
  The handlers are \<^verbatim>\<open>async\<close>. Each function of this section gives what one call does
  from its start to its end when nothing else touches the handler while the call waits
  at an \<^verbatim>\<open>await\<close>; what other calls can do in between is the subject of the section
  on runs, which cuts the calls at their \<^verbatim>\<open>await\<close>s. What the collaborators answer
  is an argument: \<open>api i\<close> is what \<^verbatim>\<open>sendMessage\<close> does for the \<open>i\<close>-th approver (it
  throws, or returns a message whose \<^verbatim>\<open>message_id\<close> may be missing, together with the
  value \<^verbatim>\<open>Date.now()\<close> has when the timer is set up); \<open>editResult\<close> and
  \<open>gatewayResult\<close> are \<^term>\<open>None\<close> when the call succeeds and the text of the error
  when it throws.
\<close>

datatype send_result = SendThrows string | SendReturns "int option" int

definition updateMessage ::
  "string \<Rightarrow> int \<Rightarrow> message_text \<Rightarrow> string option \<Rightarrow> handler_state \<Rightarrow> handler_state" where
  "updateMessage chatId messageId text editResult s =
     (let s1 = emit (EditMessageText chatId messageId text []) s
      in case editResult of
           None \<Rightarrow> s1
         | Some err \<Rightarrow>
             emit (LogError (''telegram exec approvals: failed to update message: '' @ err)) s1)"

text \<open>The body of the loop over the approvers in \<^verbatim>\<open>handleApprovalRequested\<close>.\<close>

definition notifyApprover ::
  "ExecApprovalRequest \<Rightarrow> send_result \<Rightarrow> string \<Rightarrow> handler_state \<Rightarrow> handler_state" where
  "notifyApprover req result approver s =
     (let chatId = approver;
          s1 = emit (SendMessage chatId (ExecApprovalMessage req)
                       (buildInlineKeyboard (request_id req))) s
      in case result of
           SendThrows err \<Rightarrow>
             emit (LogError (''telegram exec approvals: failed to notify user '' @ chatId
                               @ '': '' @ err)) s1
         | SendReturns message_id now \<Rightarrow>
             (case message_id of
                None \<Rightarrow>
                  emit (LogError (''telegram exec approvals: failed to send message to user ''
                                    @ chatId)) s1
              | Some mid \<Rightarrow>
                  if mid = 0 then
                    emit (LogError (''telegram exec approvals: failed to send message to user ''
                                      @ chatId)) s1
                  else
                    (let timeoutMs = max 0 (expiresAtMs req - now);
                         (tid, s2) = setTimeout (request_id req) timeoutMs s1;
                         s3 = s2\<lparr>pending := AList.update (request_id req)
                                    \<lparr>telegramMessageId = mid, telegramChatId = chatId,
                                     timeoutId = tid\<rparr> (pending s2)\<rparr>
                     in emit (LogDebug (''telegram exec approvals: sent approval ''
                                          @ request_id req @ '' to user '' @ chatId)) s3)))"

fun notifyApprovers ::
  "ExecApprovalRequest \<Rightarrow> (nat \<Rightarrow> send_result) \<Rightarrow> nat \<Rightarrow> string list \<Rightarrow> handler_state
     \<Rightarrow> handler_state" where
  "notifyApprovers req api i [] s = s"
| "notifyApprovers req api i (approver # rest) s =
     notifyApprovers req api (Suc i) rest (notifyApprover req (api i) approver s)"

definition handleApprovalRequested ::
  "regexp_engine \<Rightarrow> TelegramExecApprovalConfig \<Rightarrow> (nat \<Rightarrow> send_result) \<Rightarrow> ExecApprovalRequest
     \<Rightarrow> handler_state \<Rightarrow> handler_state" where
  "handleApprovalRequested regex config api req s =
     (if \<not> shouldHandle regex config req then s
      else
        (let s1 = emit (LogDebug (''telegram exec approvals: received request ''
                                    @ request_id req)) s;
             s2 = s1\<lparr>requestCache := AList.update (request_id req) req (requestCache s1)\<rparr>;
             shortId = slice (request_id req) 0 8;
             s3 = s2\<lparr>shortIdMap := AList.update shortId (request_id req) (shortIdMap s2)\<rparr>;
             approverList = (case approvers config of None \<Rightarrow> [] | Some as \<Rightarrow> as)
         in notifyApprovers req api 0 approverList s3))"

definition handleApprovalResolved ::
  "ExecApprovalResolved \<Rightarrow> string option \<Rightarrow> handler_state \<Rightarrow> handler_state" where
  "handleApprovalResolved resolved editResult s =
     (case map_of (pending s) (resolved_id resolved) of
        None \<Rightarrow> s
      | Some p \<Rightarrow>
          (let s1 = clearTimeout (timeoutId p) s;
               s2 = s1\<lparr>pending := AList.delete (resolved_id resolved) (pending s1)\<rparr>;
               cached = map_of (requestCache s2) (resolved_id resolved);
               s3 = s2\<lparr>requestCache := AList.delete (resolved_id resolved) (requestCache s2)\<rparr>;
               shortId = slice (resolved_id resolved) 0 8;
               s4 = s3\<lparr>shortIdMap := AList.delete shortId (shortIdMap s3)\<rparr>
           in case cached of
                None \<Rightarrow> s4
              | Some req \<Rightarrow>
                  updateMessage (telegramChatId p) (telegramMessageId p)
                    (ResolvedMessage req (decision resolved) (resolvedBy resolved)) editResult
                    (emit (LogDebug (''telegram exec approvals: resolved ''
                                       @ resolved_id resolved @ '' with ''
                                       @ decision_text (decision resolved))) s4)))"

definition handleApprovalTimeout ::
  "string \<Rightarrow> string option \<Rightarrow> handler_state \<Rightarrow> handler_state" where
  "handleApprovalTimeout approvalId editResult s =
     (case map_of (pending s) approvalId of
        None \<Rightarrow> s
      | Some p \<Rightarrow>
          (let s2 = s\<lparr>pending := AList.delete approvalId (pending s)\<rparr>;
               cached = map_of (requestCache s2) approvalId;
               s3 = s2\<lparr>requestCache := AList.delete approvalId (requestCache s2)\<rparr>;
               shortId = slice approvalId 0 8;
               s4 = s3\<lparr>shortIdMap := AList.delete shortId (shortIdMap s3)\<rparr>
           in case cached of
                None \<Rightarrow> s4
              | Some req \<Rightarrow>
                  updateMessage (telegramChatId p) (telegramMessageId p)
                    (ExpiredMessage req) editResult
                    (emit (LogDebug (''telegram exec approvals: timeout for '' @ approvalId))
                       s4)))"

text \<open>
  An armed timer fires at most once: the runtime drops it from its table and runs the
  closure, which calls \<^verbatim>\<open>handleApprovalTimeout(request.id)\<close>.
\<close>

definition timeoutFires :: "nat \<Rightarrow> string option \<Rightarrow> handler_state \<Rightarrow> handler_state" where
  "timeoutFires t editResult s =
     (case map_of (timers s) t of
        None \<Rightarrow> s
      | Some tm \<Rightarrow>
          handleApprovalTimeout (timeout_approvalId tm) editResult
            (s\<lparr>timers := AList.delete t (timers s)\<rparr>))"

definition resolveApproval ::
  "string \<Rightarrow> ExecApprovalDecision \<Rightarrow> string option \<Rightarrow> handler_state \<Rightarrow> bool \<times> handler_state" where
  "resolveApproval approvalId action gatewayResult s =
     (if \<not> gatewayClient s then
        (False, emit (LogError ''telegram exec approvals: gateway client not connected'') s)
      else
        (let s1 = emit (LogDebug (''telegram exec approvals: resolving '' @ approvalId
                                    @ '' with '' @ decision_text action)) s;
             s2 = emit (GatewayRequest approvalId action) s1
         in case gatewayResult of
              None \<Rightarrow>
                (True, emit (LogDebug (''telegram exec approvals: resolved '' @ approvalId
                                         @ '' successfully'')) s2)
            | Some err \<Rightarrow>
                (False, emit (LogError (''telegram exec approvals: resolve failed: '' @ err)) s2)))"

definition handleCallbackQuery ::
  "TelegramExecApprovalConfig \<Rightarrow> string \<Rightarrow> ExecApprovalDecision \<Rightarrow> string option \<Rightarrow> string option
     \<Rightarrow> handler_state \<Rightarrow> bool \<times> handler_state" where
  "handleCallbackQuery config shortId action userId gatewayResult s =
     (let fullId = map_of (shortIdMap s) shortId
      in if \<not> truthy fullId then
           (False, emit (LogDebug (''telegram exec approvals: unknown shortId '' @ shortId)) s)
         else
           (let approverList = (case approvers config of None \<Rightarrow> [] | Some as \<Rightarrow> as)
            in if truthy userId \<and> \<not> list_ex (\<lambda>a. Some a = userId) approverList then
                 (False, emit (LogDebug (''telegram exec approvals: user ''
                                           @ (case userId of None \<Rightarrow> [] | Some u \<Rightarrow> u)
                                           @ '' is not an approver'')) s)
               else
                 (case fullId of
                    None \<Rightarrow> (False, s)
                  | Some approvalId \<Rightarrow> resolveApproval approvalId action gatewayResult s)))"

definition getFullApprovalId :: "string \<Rightarrow> handler_state \<Rightarrow> string option" where
  "getFullApprovalId shortId s = map_of (shortIdMap s) shortId"

text \<open>
  \<^verbatim>\<open>start\<close> and \<^verbatim>\<open>stop\<close>. The gateway client is a collaborator: creating and
  starting it, and stopping it, are effects; its URL and token do not matter here.
\<close>

definition start :: "TelegramExecApprovalConfig \<Rightarrow> handler_state \<Rightarrow> handler_state" where
  "start config s =
     (if started s then s
      else
        (let s1 = s\<lparr>started := True\<rparr>
         in if \<not> enabled config then
              emit (LogDebug ''telegram exec approvals: disabled'') s1
            else if (case approvers config of None \<Rightarrow> True | Some as \<Rightarrow> length as = 0) then
              emit (LogDebug ''telegram exec approvals: no approvers configured'') s1
            else
              (let s2 = emit (LogDebug ''telegram exec approvals: starting handler'') s1;
                   s3 = s2\<lparr>gatewayClient := True\<rparr>
               in emit GatewayClientStart s3)))"

definition stop :: "handler_state \<Rightarrow> handler_state" where
  "stop s =
     (if \<not> started s then s
      else
        (let s1 = s\<lparr>started := False\<rparr>;
             s2 = fold (\<lambda>p. clearTimeout (timeoutId p)) (map snd (pending s1)) s1;
             s3 = s2\<lparr>pending := [], requestCache := [], shortIdMap := []\<rparr>;
             s4 = (if gatewayClient s3 then emit GatewayClientStop s3 else s3);
             s5 = s4\<lparr>gatewayClient := False\<rparr>
         in emit (LogDebug ''telegram exec approvals: stopped'') s5))"

section \<open>Runs of the handler\<close>

text \<open>
  JavaScript runs one piece of code at a time, and an \<^verbatim>\<open>async\<close> call gives way at
  each \<^verbatim>\<open>await\<close>: the awaited call has been issued, the rest of the handler is
  suspended, and other events are served until the awaited call settles. A suspended
  call is kept with what its continuation needs: for a send, the request, the approver
  whose send is awaited and the approvers still to notify.
\<close>

datatype suspended_call =
    AwaitSendMessage ExecApprovalRequest string "string list"
  | AwaitEditMessageText
  | AwaitGatewayRequest string

text \<open>
  The head of the loop over the approvers: the send for the next approver is issued and
  the handler waits for it, or the loop is over.
\<close>

fun sendNext ::
  "ExecApprovalRequest \<Rightarrow> string list \<Rightarrow> handler_state \<Rightarrow> handler_state \<times> suspended_call list" where
  "sendNext req [] s = (s, [])"
| "sendNext req (approver # rest) s =
     (emit (SendMessage approver (ExecApprovalMessage req)
              (buildInlineKeyboard (request_id req))) s,
      [AwaitSendMessage req approver rest])"

text \<open>
  \<^verbatim>\<open>handleApprovalRequested\<close> up to its first \<^verbatim>\<open>await\<close>: the filter, the two
  \<^verbatim>\<open>set\<close>s, and the first send.
\<close>

definition requestedBegin ::
  "regexp_engine \<Rightarrow> TelegramExecApprovalConfig \<Rightarrow> ExecApprovalRequest \<Rightarrow> handler_state
     \<Rightarrow> handler_state \<times> suspended_call list" where
  "requestedBegin regex config req s =
     (if \<not> shouldHandle regex config req then (s, [])
      else
        (let s1 = emit (LogDebug (''telegram exec approvals: received request ''
                                    @ request_id req)) s;
             s2 = s1\<lparr>requestCache := AList.update (request_id req) req (requestCache s1)\<rparr>;
             shortId = slice (request_id req) 0 8;
             s3 = s2\<lparr>shortIdMap := AList.update shortId (request_id req) (shortIdMap s2)\<rparr>;
             approverList = (case approvers config of None \<Rightarrow> [] | Some as \<Rightarrow> as)
         in sendNext req approverList s3))"

text \<open>
  The body of the loop after the \<^verbatim>\<open>await\<close>, once the send for \<open>approver\<close> has
  settled: the \<^verbatim>\<open>catch\<close>, the test of \<^verbatim>\<open>message_id\<close>, the timer and
  \<^verbatim>\<open>pending.set\<close>.
\<close>

definition sendSettled ::
  "ExecApprovalRequest \<Rightarrow> string \<Rightarrow> send_result \<Rightarrow> handler_state \<Rightarrow> handler_state" where
  "sendSettled req approver result s1 =
     (let chatId = approver
      in case result of
           SendThrows err \<Rightarrow>
             emit (LogError (''telegram exec approvals: failed to notify user '' @ chatId
                               @ '': '' @ err)) s1
         | SendReturns message_id now \<Rightarrow>
             (case message_id of
                None \<Rightarrow>
                  emit (LogError (''telegram exec approvals: failed to send message to user ''
                                    @ chatId)) s1
              | Some mid \<Rightarrow>
                  if mid = 0 then
                    emit (LogError (''telegram exec approvals: failed to send message to user ''
                                      @ chatId)) s1
                  else
                    (let timeoutMs = max 0 (expiresAtMs req - now);
                         (tid, s2) = setTimeout (request_id req) timeoutMs s1;
                         s3 = s2\<lparr>pending := AList.update (request_id req)
                                    \<lparr>telegramMessageId = mid, telegramChatId = chatId,
                                     timeoutId = tid\<rparr> (pending s2)\<rparr>
                     in emit (LogDebug (''telegram exec approvals: sent approval ''
                                          @ request_id req @ '' to user '' @ chatId)) s3)))"

text \<open>
  The handler resumes when the send settles: the rest of the loop body, then the head of
  the loop for the approvers that are left.
\<close>

definition sendResumes ::
  "ExecApprovalRequest \<Rightarrow> string \<Rightarrow> string list \<Rightarrow> send_result \<Rightarrow> handler_state
     \<Rightarrow> handler_state \<times> suspended_call list" where
  "sendResumes req approver rest result s =
     sendNext req rest (sendSettled req approver result s)"

text \<open>
  \<^verbatim>\<open>handleApprovalResolved\<close> and \<^verbatim>\<open>handleApprovalTimeout\<close> do all their work on the
  maps before their only \<^verbatim>\<open>await\<close>, the one of \<^verbatim>\<open>editMessageText\<close> inside
  \<^verbatim>\<open>updateMessage\<close>; it is reached when the entry and the cached request were both
  found. After it, the handler only logs the error if the edit failed.
\<close>

definition resolvedBegin ::
  "ExecApprovalResolved \<Rightarrow> handler_state \<Rightarrow> handler_state \<times> suspended_call list" where
  "resolvedBegin resolved s =
     (handleApprovalResolved resolved None s,
      if map_of (pending s) (resolved_id resolved) \<noteq> None
         \<and> map_of (requestCache s) (resolved_id resolved) \<noteq> None
      then [AwaitEditMessageText] else [])"

definition timeoutBegin ::
  "string \<Rightarrow> handler_state \<Rightarrow> handler_state \<times> suspended_call list" where
  "timeoutBegin approvalId s =
     (handleApprovalTimeout approvalId None s,
      if map_of (pending s) approvalId \<noteq> None \<and> map_of (requestCache s) approvalId \<noteq> None
      then [AwaitEditMessageText] else [])"

definition timeoutFiresBegin ::
  "nat \<Rightarrow> handler_state \<Rightarrow> handler_state \<times> suspended_call list" where
  "timeoutFiresBegin t s =
     (case map_of (timers s) t of
        None \<Rightarrow> (s, [])
      | Some tm \<Rightarrow>
          timeoutBegin (timeout_approvalId tm) (s\<lparr>timers := AList.delete t (timers s)\<rparr>))"

definition editResumes :: "string option \<Rightarrow> handler_state \<Rightarrow> handler_state" where
  "editResumes editResult s =
     (case editResult of
        None \<Rightarrow> s
      | Some err \<Rightarrow>
          emit (LogError (''telegram exec approvals: failed to update message: '' @ err)) s)"

text \<open>
  \<^verbatim>\<open>handleCallbackQuery\<close> up to the \<^verbatim>\<open>await\<close> of the gateway request in
  \<^verbatim>\<open>resolveApproval\<close>, and what \<^verbatim>\<open>resolveApproval\<close> logs when the request settles.
\<close>

definition resolveApprovalBegin ::
  "string \<Rightarrow> ExecApprovalDecision \<Rightarrow> handler_state \<Rightarrow> handler_state \<times> suspended_call list" where
  "resolveApprovalBegin approvalId action s =
     (if \<not> gatewayClient s then
        (emit (LogError ''telegram exec approvals: gateway client not connected'') s, [])
      else
        (let s1 = emit (LogDebug (''telegram exec approvals: resolving '' @ approvalId
                                    @ '' with '' @ decision_text action)) s
         in (emit (GatewayRequest approvalId action) s1, [AwaitGatewayRequest approvalId])))"

definition callbackBegin ::
  "TelegramExecApprovalConfig \<Rightarrow> string \<Rightarrow> ExecApprovalDecision \<Rightarrow> string option \<Rightarrow> handler_state
     \<Rightarrow> handler_state \<times> suspended_call list" where
  "callbackBegin config shortId action userId s =
     (let fullId = map_of (shortIdMap s) shortId
      in if \<not> truthy fullId then
           (emit (LogDebug (''telegram exec approvals: unknown shortId '' @ shortId)) s, [])
         else
           (let approverList = (case approvers config of None \<Rightarrow> [] | Some as \<Rightarrow> as)
            in if truthy userId \<and> \<not> list_ex (\<lambda>a. Some a = userId) approverList then
                 (emit (LogDebug (''telegram exec approvals: user ''
                                    @ (case userId of None \<Rightarrow> [] | Some u \<Rightarrow> u)
                                    @ '' is not an approver'')) s, [])
               else
                 (case fullId of
                    None \<Rightarrow> (s, [])
                  | Some approvalId \<Rightarrow> resolveApprovalBegin approvalId action s)))"

definition gatewayResumes :: "string \<Rightarrow> string option \<Rightarrow> handler_state \<Rightarrow> handler_state" where
  "gatewayResumes approvalId gatewayResult s =
     (case gatewayResult of
        None \<Rightarrow>
          emit (LogDebug (''telegram exec approvals: resolved '' @ approvalId
                            @ '' successfully'')) s
      | Some err \<Rightarrow> emit (LogError (''telegram exec approvals: resolve failed: '' @ err)) s)"

text \<open>
  \<^verbatim>\<open>handleGatewayEvent\<close> dispatches on the event name, casts the payload to the type of
  that event, and starts the handler without waiting for it (\<^verbatim>\<open>void\<close>): it returns
  when the handler reaches its first \<^verbatim>\<open>await\<close>.
\<close>

datatype EventFrame =
    ExecApprovalRequestedEvent ExecApprovalRequest
  | ExecApprovalResolvedEvent ExecApprovalResolved
  | OtherEvent string

fun handleGatewayEvent ::
  "regexp_engine \<Rightarrow> TelegramExecApprovalConfig \<Rightarrow> EventFrame \<Rightarrow> handler_state
     \<Rightarrow> handler_state \<times> suspended_call list" where
  "handleGatewayEvent regex config (ExecApprovalRequestedEvent req) s =
     requestedBegin regex config req s"
| "handleGatewayEvent regex config (ExecApprovalResolvedEvent resolved) s =
     resolvedBegin resolved s"
| "handleGatewayEvent regex config (OtherEvent name) s = (s, [])"

text \<open>
  The state of a run is the state of the handler and the calls that are suspended. A
  step is one of: \<^verbatim>\<open>start\<close>, \<^verbatim>\<open>stop\<close>, the gateway client delivers an event, an
  armed timer fires, the bot delivers a button press, or an awaited call settles and its
  handler resumes up to its next \<^verbatim>\<open>await\<close>. Calls settle in any order, and also
  after \<^verbatim>\<open>stop\<close>, which does not wait for them.
\<close>

record runtime =
  handler :: handler_state
  awaiting :: "suspended_call list"

datatype settlement = SendSettled send_result | CallSettled "string option"

datatype operation =
    OpStart
  | OpStop
  | OpGatewayEvent EventFrame
  | OpTimeoutFires nat
  | OpCallbackQuery string ExecApprovalDecision "string option"
  | OpSettles nat settlement

fun resume ::
  "suspended_call \<Rightarrow> settlement \<Rightarrow> handler_state
     \<Rightarrow> (handler_state \<times> suspended_call list) option" where
  "resume (AwaitSendMessage req approver rest) (SendSettled result) s =
     Some (sendResumes req approver rest result s)"
| "resume AwaitEditMessageText (CallSettled editResult) s = Some (editResumes editResult s, [])"
| "resume (AwaitGatewayRequest approvalId) (CallSettled gatewayResult) s =
     Some (gatewayResumes approvalId gatewayResult s, [])"
| "resume c r s = None"

definition suspend :: "runtime \<Rightarrow> handler_state \<times> suspended_call list \<Rightarrow> runtime" where
  "suspend rt r = \<lparr>handler = fst r, awaiting = awaiting rt @ snd r\<rparr>"

fun step ::
  "regexp_engine \<Rightarrow> TelegramExecApprovalConfig \<Rightarrow> runtime \<Rightarrow> operation \<Rightarrow> runtime" where
  "step regex config rt OpStart = rt\<lparr>handler := start config (handler rt)\<rparr>"
| "step regex config rt OpStop = rt\<lparr>handler := stop (handler rt)\<rparr>"
| "step regex config rt (OpGatewayEvent evt) =
     suspend rt (handleGatewayEvent regex config evt (handler rt))"
| "step regex config rt (OpTimeoutFires t) = suspend rt (timeoutFiresBegin t (handler rt))"
| "step regex config rt (OpCallbackQuery shortId action userId) =
     suspend rt (callbackBegin config shortId action userId (handler rt))"
| "step regex config rt (OpSettles k result) =
     (if k < length (awaiting rt) then
        (case resume (awaiting rt ! k) result (handler rt) of
           None \<Rightarrow> rt
         | Some r \<Rightarrow>
             suspend (rt\<lparr>awaiting := take k (awaiting rt) @ drop (Suc k) (awaiting rt)\<rparr>) r)
      else rt)"

definition run ::
  "regexp_engine \<Rightarrow> TelegramExecApprovalConfig \<Rightarrow> operation list \<Rightarrow> runtime" where
  "run regex config ops =
     foldl (step regex config) \<lparr>handler = initial_state, awaiting = []\<rparr> ops"

text \<open>The calls of \<^verbatim>\<open>editMessageText\<close> and of the gateway made so far.\<close>

fun is_message_update :: "effect \<Rightarrow> bool" where
  "is_message_update (EditMessageText chatId messageId text markup) = True"
| "is_message_update e = False"

definition message_updates :: "handler_state \<Rightarrow> effect list" where
  "message_updates s = filter is_message_update (effects s)"

fun is_gateway_request :: "effect \<Rightarrow> bool" where
  "is_gateway_request (GatewayRequest approvalId action) = True"
| "is_gateway_request e = False"

definition gateway_requests :: "handler_state \<Rightarrow> effect list" where
  "gateway_requests s = filter is_gateway_request (effects s)"

text \<open>
  A send that notifies nobody: it throws, or the message it returns has no truthy
  \<^verbatim>\<open>message_id\<close>.
\<close>

fun send_failed :: "send_result \<Rightarrow> bool" where
  "send_failed (SendThrows err) = True"
| "send_failed (SendReturns None now) = True"
| "send_failed (SendReturns (Some mid) now) = (mid = 0)"

text \<open>
  Every armed timer belongs to a request that has a pending entry.
\<close>

definition no_dangling_timer :: "handler_state \<Rightarrow> bool" where
  "no_dangling_timer s =
     list_all (\<lambda>(t, tm). map_of (pending s) (timeout_approvalId tm) \<noteq> None) (timers s)"

section \<open>Example inputs\<close>

text \<open>
  A configuration with two approvers and no filters, two requests whose identifiers
  share their first eight characters, and a Telegram API on which every send succeeds.
\<close>

definition no_regex :: regexp_engine where
  "no_regex = (\<lambda>p. None)"

definition example_config :: TelegramExecApprovalConfig where
  "example_config =
     \<lparr>enabled = True, approvers = Some [''111'', ''222''],
      agentFilter = None, sessionFilter = None\<rparr>"

definition example_data :: ExecApprovalRequestData where
  "example_data =
     \<lparr>command = ''ls'', cwd = None, host = None, security = None, ask = None,
      agentId = None, resolvedPath = None, sessionKey = None\<rparr>"

definition example_request :: ExecApprovalRequest where
  "example_request =
     \<lparr>request_id = ''abc12345-6789-def0'', request = example_data,
      createdAtMs = 1000, expiresAtMs = 61000\<rparr>"

definition example_request2 :: ExecApprovalRequest where
  "example_request2 =
     \<lparr>request_id = ''abc12345-ffff-0000'', request = example_data,
      createdAtMs = 1500, expiresAtMs = 61500\<rparr>"

definition example_resolved :: ExecApprovalResolved where
  "example_resolved =
     \<lparr>resolved_id = ''abc12345-6789-def0'', decision = AllowOnce,
      resolvedBy = Some ''111'', ts = 3000\<rparr>"

definition example_api :: "nat \<Rightarrow> send_result" where
  "example_api i = SendReturns (Some (10 + int i)) 2000"

definition failing_api :: "nat \<Rightarrow> send_result" where
  "failing_api i = SendThrows ''network''"

text \<open>
  The handler after \<^verbatim>\<open>start\<close> and one request that nothing interrupted, and after a
  second request.
\<close>

definition example_state :: handler_state where
  "example_state =
     handleApprovalRequested no_regex example_config example_api example_request
       (start example_config initial_state)"

definition example_state2 :: handler_state where
  "example_state2 =
     handleApprovalRequested no_regex example_config example_api example_request2 example_state"

text \<open>
  The same request, with its resolution delivered while the send to the second approver
  is awaited: the handler is started, the request arrives and the send to \<open>111\<close> is
  issued; that send returns message 10 and the send to \<open>222\<close> is issued; the resolved
  event arrives; the send to \<open>222\<close> returns message 11.
\<close>

definition interleaved_ops :: "operation list" where
  "interleaved_ops =
     [OpStart,
      OpGatewayEvent (ExecApprovalRequestedEvent example_request),
      OpSettles 0 (SendSettled (SendReturns (Some 10) 2000)),
      OpGatewayEvent (ExecApprovalResolvedEvent example_resolved),
      OpSettles 0 (SendSettled (SendReturns (Some 11) 2000))]"

definition interleaved_state :: handler_state where
  "interleaved_state =
     (let s0 = start example_config initial_state;
          s1 = fst (requestedBegin no_regex example_config example_request s0);
          s2 = fst (sendResumes example_request ''111'' [''222'']
                      (SendReturns (Some 10) 2000) s1);
          s3 = fst (resolvedBegin example_resolved s2)
      in fst (sendResumes example_request ''222'' [] (SendReturns (Some 11) 2000) s3))"

section \<open>Properties of the codec\<close>

text \<open>
  The two string tests say what their names promise: a prefix, and an occurrence
  somewhere in the string.
\<close>

lemma startsWith_iff: "startsWith s p \<longleftrightarrow> (\<exists>vs. s = p @ vs)"
proof
  assume "startsWith s p"
  then have "s = p @ drop (length p) s"
    by (metis append_take_drop_id startsWith_def)
  then show "\<exists>vs. s = p @ vs" ..
next
  assume "\<exists>vs. s = p @ vs"
  then show "startsWith s p" by (auto simp: startsWith_def)
qed

lemma js_includes_iff: "js_includes s p \<longleftrightarrow> (\<exists>us vs. s = us @ p @ vs)"
proof (induction s)
  case Nil
  show ?case by auto
next
  case (Cons c cs)
  show ?case
  proof
    assume "js_includes (c # cs) p"
    then consider "startsWith (c # cs) p" | "js_includes cs p" by auto
    then show "\<exists>us vs. c # cs = us @ p @ vs"
    proof cases
      case 1
      then obtain vs where "c # cs = p @ vs" by (auto simp: startsWith_iff)
      then have "c # cs = [] @ p @ vs" by simp
      then show ?thesis by blast
    next
      case 2
      then obtain us vs where "cs = us @ p @ vs" using Cons.IH by auto
      then have "c # cs = (c # us) @ p @ vs" by simp
      then show ?thesis by blast
    qed
  next
    assume "\<exists>us vs. c # cs = us @ p @ vs"
    then obtain us vs where e: "c # cs = us @ p @ vs" by auto
    show "js_includes (c # cs) p"
    proof (cases us)
      case Nil
      with e have "startsWith (c # cs) p" by (auto simp: startsWith_iff)
      then show ?thesis by simp
    next
      case (Cons u us')
      with e have "cs = us' @ p @ vs" by simp
      then have "js_includes cs p" using Cons.IH by auto
      then show ?thesis by simp
    qed
  qed
qed

lemma js_split_no_sep: "sep \<notin> set xs \<Longrightarrow> js_split sep xs = [xs]"
  by (induction xs) auto

lemma js_split_append: "sep \<notin> set xs \<Longrightarrow> js_split sep (xs @ sep # ys) = xs # js_split sep ys"
  by (induction xs) auto

lemma startsWith_longer: "startsWith s (p @ q) \<Longrightarrow> startsWith s p"
  by (auto simp: startsWith_iff)

text \<open>
  Claim C5, as amended. For every identifier of length at least 1 whose first eight
  characters contain no colon, and each of the three decisions, decoding the encoded
  token yields the first eight characters of the identifier (the whole identifier when
  it is shorter) as the short id, and the decision. The codec does not escape the
  separator, so a colon inside the short id changes the number of fields.
\<close>

theorem decode_encode_roundtrip:
  assumes "1 \<le> length approvalId"
    and "CHR '':'' \<notin> set (take 8 approvalId)"
  shows "slice approvalId 0 8 = take 8 approvalId \<and>
         parseExecApprovalCallbackData (Str (buildExecApprovalCallbackData approvalId action))
           = Some (take 8 approvalId, action)"
proof -
  have ne: "take 8 approvalId \<noteq> []" using assms(1) by (cases approvalId) auto
  have sp: "js_split CHR '':'' (''ea'' @ CHR '':'' # take 8 approvalId @ CHR '':'' # actionChar_of action)
              = [''ea'', take 8 approvalId, actionChar_of action]"
    using assms(2) by (cases action) (simp_all add: actionChar_of_def js_split_append js_split_no_sep)
  have ac: "action_of_char (actionChar_of action) = Some action"
    by (cases action) (simp_all add: actionChar_of_def action_of_char_def)
  have b: "buildExecApprovalCallbackData approvalId action
             = ''ea'' @ CHR '':'' # take 8 approvalId @ CHR '':'' # actionChar_of action"
    by (simp add: buildExecApprovalCallbackData_def EXEC_APPROVAL_PREFIX_def slice_def)
  have sw: "startsWith (''ea'' @ CHR '':'' # take 8 approvalId @ CHR '':'' # actionChar_of action) ''ea:''"
    by (simp add: startsWith_def)
  show ?thesis
    unfolding b using sp ac ne sw
    by (simp add: slice_def EXEC_APPROVAL_PREFIX_def)
qed

theorem decode_encode_roundtrip_witness:
  "parseExecApprovalCallbackData (Str (buildExecApprovalCallbackData ''abc12345-6789-def0'' AllowOnce))
     = Some (''abc12345'', AllowOnce)"
proof -
  have h1: "1 \<le> length ''abc12345-6789-def0''" by simp
  have h2: "CHR '':'' \<notin> set (take 8 ''abc12345-6789-def0'')" by simp
  from decode_encode_roundtrip [OF h1 h2, of AllowOnce] show ?thesis by simp
qed

theorem decode_encode_colon_counterexample:
  "1 \<le> length ''a:b'' \<and>
   parseExecApprovalCallbackData (Str (buildExecApprovalCallbackData ''a:b'' AllowOnce))
     \<noteq> Some (take 8 ''a:b'', AllowOnce)"
  by (simp add: buildExecApprovalCallbackData_def EXEC_APPROVAL_PREFIX_def slice_def
        actionChar_of_def startsWith_def)

text \<open>
  Claim C7. The parser returns null, and never throws, for \<^verbatim>\<open>undefined\<close>,
  \<^verbatim>\<open>null\<close> and the empty string, and for every token that does not start with the
  prefix, does not split at colons into exactly three fields, has an empty second field,
  or has a third field other than \<open>o\<close>, \<open>a\<close> and \<open>d\<close>.
\<close>

theorem decode_rejects_malformed:
  "parseExecApprovalCallbackData Undefined = None \<and>
   parseExecApprovalCallbackData Null = None \<and>
   parseExecApprovalCallbackData (Str []) = None \<and>
   (\<not> startsWith data EXEC_APPROVAL_PREFIX
      \<or> \<not> startsWith data (EXEC_APPROVAL_PREFIX @ '':'')
      \<or> length (js_split CHR '':'' data) \<noteq> 3
      \<or> js_split CHR '':'' data ! 1 = []
      \<or> js_split CHR '':'' data ! 2 \<notin> {''o'', ''a'', ''d''}
    \<longrightarrow> parseExecApprovalCallbackData (Str data) = None)"
proof -
  have "parseExecApprovalCallbackData (Str data) = None"
    if "\<not> startsWith data (EXEC_APPROVAL_PREFIX @ '':'')"
    using that by simp
  moreover have "parseExecApprovalCallbackData (Str data) = None"
    if "\<not> startsWith data EXEC_APPROVAL_PREFIX"
    using that startsWith_longer [of data EXEC_APPROVAL_PREFIX "'':''"] by auto
  moreover have "parseExecApprovalCallbackData (Str data) = None"
    if "length (js_split CHR '':'' data) \<noteq> 3"
    using that by (auto split: list.splits)
  moreover have "parseExecApprovalCallbackData (Str data) = None"
    if "js_split CHR '':'' data ! 1 = []"
    using that by (auto split: list.splits option.splits)
  moreover have "parseExecApprovalCallbackData (Str data) = None"
    if "js_split CHR '':'' data ! 2 \<notin> {''o'', ''a'', ''d''}"
    using that by (auto simp: action_of_char_def split: list.splits option.splits if_splits)
  ultimately show ?thesis by auto
qed

theorem decode_rejects_malformed_witness:
  "js_split CHR '':'' ''ea::o'' ! 1 = [] \<and> parseExecApprovalCallbackData (Str ''ea::o'') = None"
proof -
  have h: "js_split CHR '':'' ''ea::o'' ! 1 = []" by simp
  from decode_rejects_malformed [of "''ea::o''"] h show ?thesis by blast
qed

section \<open>Properties of the handler\<close>

lemmas handler_defs =
  initial_state_def start_def stop_def emit_def handleApprovalRequested_def
  shouldHandle_def agentFilterRejects_def sessionFilterRejects_def slice_def
  notifyApprover_def setTimeout_def clearTimeout_def buildInlineKeyboard_def
  handleApprovalResolved_def handleApprovalTimeout_def timeoutFires_def updateMessage_def
  resolveApproval_def handleCallbackQuery_def Let_def

lemmas example_defs =
  no_regex_def example_config_def example_data_def example_request_def example_request2_def
  example_resolved_def example_api_def failing_api_def

subsection \<open>What each operation leaves alone\<close>

lemma emit_fields [simp]:
  "gatewayClient (emit e s) = gatewayClient s"
  "pending (emit e s) = pending s"
  "requestCache (emit e s) = requestCache s"
  "shortIdMap (emit e s) = shortIdMap s"
  "started (emit e s) = started s"
  "timers (emit e s) = timers s"
  "nextTimeoutId (emit e s) = nextTimeoutId s"
  "effects (emit e s) = effects s @ [e]"
  by (simp_all add: emit_def)

lemma updateMessage_fields [simp]:
  "gatewayClient (updateMessage c m t r s) = gatewayClient s"
  "pending (updateMessage c m t r s) = pending s"
  "requestCache (updateMessage c m t r s) = requestCache s"
  "shortIdMap (updateMessage c m t r s) = shortIdMap s"
  "started (updateMessage c m t r s) = started s"
  "timers (updateMessage c m t r s) = timers s"
  "nextTimeoutId (updateMessage c m t r s) = nextTimeoutId s"
  by (simp_all add: updateMessage_def Let_def split: option.splits)

lemma updateMessage_updates [simp]:
  "message_updates (updateMessage c m t r s) = message_updates s @ [EditMessageText c m t []]"
  by (simp add: updateMessage_def message_updates_def Let_def split: option.splits)

lemma emit_log_updates [simp]:
  "message_updates (emit (LogDebug x) s) = message_updates s"
  "message_updates (emit (LogError x) s) = message_updates s"
  by (simp_all add: message_updates_def)


lemma notifyApprover_fields [simp]:
  "gatewayClient (notifyApprover req r a s) = gatewayClient s"
  "requestCache (notifyApprover req r a s) = requestCache s"
  "shortIdMap (notifyApprover req r a s) = shortIdMap s"
  "started (notifyApprover req r a s) = started s"
  by (simp_all add: notifyApprover_def setTimeout_def Let_def split: send_result.splits option.splits)

lemma notifyApprover_failed:
  assumes "send_failed r"
  shows "pending (notifyApprover req r a s) = pending s"
    and "timers (notifyApprover req r a s) = timers s"
    and "nextTimeoutId (notifyApprover req r a s) = nextTimeoutId s"
  using assms
  by (cases r rule: send_failed.cases; simp add: notifyApprover_def Let_def)+

lemma notifyApprovers_fields [simp]:
  "gatewayClient (notifyApprovers req api i as s) = gatewayClient s"
  "requestCache (notifyApprovers req api i as s) = requestCache s"
  "shortIdMap (notifyApprovers req api i as s) = shortIdMap s"
  "started (notifyApprovers req api i as s) = started s"
  by (induction as arbitrary: i s; simp)+

lemma notifyApprovers_failed:
  assumes "\<forall>j < length as. send_failed (api (i + j))"
  shows "pending (notifyApprovers req api i as s) = pending s
       \<and> timers (notifyApprovers req api i as s) = timers s
       \<and> nextTimeoutId (notifyApprovers req api i as s) = nextTimeoutId s"
  using assms
proof (induction as arbitrary: i s)
  case Nil
  then show ?case by simp
next
  case (Cons a as)
  have f0: "send_failed (api i)" using Cons.prems by force
  have "\<forall>j < length as. send_failed (api (Suc i + j))"
  proof (intro allI impI)
    fix j assume "j < length as"
    then have "Suc j < length (a # as)" by simp
    with Cons.prems have "send_failed (api (i + Suc j))" by blast
    then show "send_failed (api (Suc i + j))" by simp
  qed
  from Cons.IH [OF this] show ?case
    by (simp add: notifyApprover_failed [OF f0])
qed

subsection \<open>An uninterrupted request\<close>

lemma requested_unfold:
  assumes "shouldHandle regex config req"
  shows "handleApprovalRequested regex config api req s =
           notifyApprovers req api 0 (case approvers config of None \<Rightarrow> [] | Some as \<Rightarrow> as)
             ((emit (LogDebug (''telegram exec approvals: received request '' @ request_id req)) s)
                \<lparr>requestCache := AList.update (request_id req) req (requestCache s),
                  shortIdMap := AList.update (slice (request_id req) 0 8) (request_id req)
                                  (shortIdMap s)\<rparr>)"
  using assms by (simp add: handleApprovalRequested_def Let_def)

subsection \<open>Calls cut at their awaits\<close>

text \<open>
  A call that nothing interrupts is its pieces run one after the other.
\<close>

lemma notifyApprover_cut:
  "notifyApprover req result approver s =
     sendSettled req approver result
       (emit (SendMessage approver (ExecApprovalMessage req)
                (buildInlineKeyboard (request_id req))) s)"
  by (simp add: notifyApprover_def sendSettled_def Let_def)

lemma notifyApprovers_cut:
  "notifyApprovers req api i (a # rest) s =
     notifyApprovers req api (Suc i) rest
       (sendSettled req a (api i) (fst (sendNext req (a # rest) s)))"
  by (simp add: notifyApprover_cut)

lemma requested_cut:
  "shouldHandle regex config req \<Longrightarrow> approvers config = Some (a # rest) \<Longrightarrow>
   handleApprovalRequested regex config api req s =
     notifyApprovers req api (Suc 0) rest
       (sendSettled req a (api 0) (fst (requestedBegin regex config req s)))"
  by (simp add: handleApprovalRequested_def requestedBegin_def Let_def notifyApprover_cut)

lemma resolved_cut:
  "handleApprovalResolved resolved editResult s =
     (if snd (resolvedBegin resolved s) = [] then fst (resolvedBegin resolved s)
      else editResumes editResult (fst (resolvedBegin resolved s)))"
  by (auto simp: resolvedBegin_def handleApprovalResolved_def updateMessage_def editResumes_def
        clearTimeout_def Let_def split: option.splits)

lemma timeout_cut:
  "handleApprovalTimeout approvalId editResult s =
     (if snd (timeoutBegin approvalId s) = [] then fst (timeoutBegin approvalId s)
      else editResumes editResult (fst (timeoutBegin approvalId s)))"
  by (auto simp: timeoutBegin_def handleApprovalTimeout_def updateMessage_def editResumes_def
        Let_def split: option.splits)

lemma timeoutFires_cut:
  "timeoutFires t editResult s =
     (if snd (timeoutFiresBegin t s) = [] then fst (timeoutFiresBegin t s)
      else editResumes editResult (fst (timeoutFiresBegin t s)))"
  by (simp add: timeoutFires_def timeoutFiresBegin_def timeout_cut split: option.splits)

lemma resolveApproval_cut:
  "snd (resolveApproval approvalId action gatewayResult s) =
     (if snd (resolveApprovalBegin approvalId action s) = []
      then fst (resolveApprovalBegin approvalId action s)
      else gatewayResumes approvalId gatewayResult (fst (resolveApprovalBegin approvalId action s)))"
  by (simp add: resolveApproval_def resolveApprovalBegin_def gatewayResumes_def Let_def
        split: option.splits)

lemma callback_cut:
  "map_of (shortIdMap s) shortId = Some approvalId \<Longrightarrow>
   snd (handleCallbackQuery config shortId action userId gatewayResult s) =
     (if snd (callbackBegin config shortId action userId s) = []
      then fst (callbackBegin config shortId action userId s)
      else gatewayResumes approvalId gatewayResult
             (fst (callbackBegin config shortId action userId s)))"
  by (simp add: handleCallbackQuery_def callbackBegin_def resolveApproval_cut Let_def
        resolveApprovalBegin_def)

lemma example_state_eq:
  "example_state =
     \<lparr>gatewayClient = True,
      pending = [(''abc12345-6789-def0'',
                  \<lparr>telegramMessageId = 11, telegramChatId = ''222'', timeoutId = 1\<rparr>)],
      requestCache = [(''abc12345-6789-def0'', example_request)],
      shortIdMap = [(''abc12345'', ''abc12345-6789-def0'')],
      started = True,
      timers = [(0, \<lparr>timeout_approvalId = ''abc12345-6789-def0'', timeout_ms = 59000\<rparr>),
                (1, \<lparr>timeout_approvalId = ''abc12345-6789-def0'', timeout_ms = 59000\<rparr>)],
      nextTimeoutId = 2,
      effects =
        [LogDebug ''telegram exec approvals: starting handler'',
         GatewayClientStart,
         LogDebug ''telegram exec approvals: received request abc12345-6789-def0'',
         SendMessage ''111'' (ExecApprovalMessage example_request)
           [[''ea:abc12345:o'', ''ea:abc12345:a'', ''ea:abc12345:d'']],
         LogDebug ''telegram exec approvals: sent approval abc12345-6789-def0 to user 111'',
         SendMessage ''222'' (ExecApprovalMessage example_request)
           [[''ea:abc12345:o'', ''ea:abc12345:a'', ''ea:abc12345:d'']],
         LogDebug ''telegram exec approvals: sent approval abc12345-6789-def0 to user 222'']\<rparr>"
  unfolding example_state_def
  by (simp add: handler_defs example_defs buildExecApprovalCallbackData_def
        EXEC_APPROVAL_PREFIX_def actionChar_of_def)

lemma example_state_reached:
  "handler (run no_regex example_config
              [OpStart,
               OpGatewayEvent (ExecApprovalRequestedEvent example_request),
               OpSettles 0 (SendSettled (example_api 0)),
               OpSettles 0 (SendSettled (example_api 1))])
   = example_state"
  by (simp add: example_state_eq run_def suspend_def requestedBegin_def sendResumes_def
        sendSettled_def handler_defs example_defs buildExecApprovalCallbackData_def
        EXEC_APPROVAL_PREFIX_def actionChar_of_def)

lemma interleaved_state_eq:
  "interleaved_state =
     \<lparr>gatewayClient = True,
      pending = [(''abc12345-6789-def0'',
                  \<lparr>telegramMessageId = 11, telegramChatId = ''222'', timeoutId = 1\<rparr>)],
      requestCache = [],
      shortIdMap = [],
      started = True,
      timers = [(1, \<lparr>timeout_approvalId = ''abc12345-6789-def0'', timeout_ms = 59000\<rparr>)],
      nextTimeoutId = 2,
      effects =
        [LogDebug ''telegram exec approvals: starting handler'',
         GatewayClientStart,
         LogDebug ''telegram exec approvals: received request abc12345-6789-def0'',
         SendMessage ''111'' (ExecApprovalMessage example_request)
           [[''ea:abc12345:o'', ''ea:abc12345:a'', ''ea:abc12345:d'']],
         LogDebug ''telegram exec approvals: sent approval abc12345-6789-def0 to user 111'',
         SendMessage ''222'' (ExecApprovalMessage example_request)
           [[''ea:abc12345:o'', ''ea:abc12345:a'', ''ea:abc12345:d'']],
         LogDebug ''telegram exec approvals: resolved abc12345-6789-def0 with allow-once'',
         EditMessageText ''111'' 10
           (ResolvedMessage example_request AllowOnce (Some ''111'')) [],
         LogDebug ''telegram exec approvals: sent approval abc12345-6789-def0 to user 222'']\<rparr>"
  unfolding interleaved_state_def
  by (simp add: requestedBegin_def sendResumes_def sendSettled_def resolvedBegin_def
        decision_text_def handler_defs example_defs buildExecApprovalCallbackData_def
        EXEC_APPROVAL_PREFIX_def actionChar_of_def)

lemma interleaved_state_reached:
  "handler (run no_regex example_config interleaved_ops) = interleaved_state"
  by (simp add: interleaved_state_eq interleaved_ops_def run_def suspend_def requestedBegin_def
        sendResumes_def sendSettled_def resolvedBegin_def decision_text_def handler_defs
        example_defs buildExecApprovalCallbackData_def EXEC_APPROVAL_PREFIX_def
        actionChar_of_def)

subsection \<open>Resolution against timeout\<close>








subsection \<open>Callbacks and the gateway\<close>

lemma gateway_requests_emit [simp]:
  "gateway_requests (emit (LogDebug x) s) = gateway_requests s"
  "gateway_requests (emit (LogError x) s) = gateway_requests s"
  "gateway_requests (emit (GatewayRequest a d) s) = gateway_requests s @ [GatewayRequest a d]"
  by (simp_all add: gateway_requests_def)

lemma resolveApproval_connected:
  assumes "gatewayClient s"
  shows "fst (resolveApproval a d gw s) = (gw = None)"
    and "gateway_requests (snd (resolveApproval a d gw s)) = gateway_requests s @ [GatewayRequest a d]"
  using assms by (simp_all add: resolveApproval_def Let_def split: option.splits)

lemma example_state2_eq:
  "pending example_state2 =
     [(''abc12345-6789-def0'',
       \<lparr>telegramMessageId = 11, telegramChatId = ''222'', timeoutId = 1\<rparr>),
      (''abc12345-ffff-0000'',
       \<lparr>telegramMessageId = 11, telegramChatId = ''222'', timeoutId = 3\<rparr>)]"
  "shortIdMap example_state2 = [(''abc12345'', ''abc12345-ffff-0000'')]"
  "gateway_requests example_state2 = []"
  unfolding example_state2_def
  by (simp_all add: example_state_eq handler_defs example_defs gateway_requests_def)

text \<open>
  Claim C2, as amended. A callback that carries a non-empty user id that is not in the
  configured approver list is ignored, whatever its short id maps to: the handler returns
  false and no resolve request goes to the gateway. The test is guarded by the
  truthiness of the user id, so a callback with an absent or empty user id is not checked
  against the list.
\<close>

theorem unauthorized_callback_ignored:
  assumes "userId = Some u" and "u \<noteq> []"
    and "u \<notin> set (case approvers config of None \<Rightarrow> [] | Some as \<Rightarrow> as)"
  shows "fst (handleCallbackQuery config shortId action userId gw s) = False \<and>
         gateway_requests (snd (handleCallbackQuery config shortId action userId gw s))
           = gateway_requests s"
  using assms
  by (auto simp: handleCallbackQuery_def Let_def list_ex_iff)

theorem unauthorized_callback_ignored_witness:
  "map_of (shortIdMap example_state) ''abc12345'' = Some ''abc12345-6789-def0'' \<and>
   map_of (pending example_state) ''abc12345-6789-def0'' \<noteq> None \<and>
   fst (handleCallbackQuery example_config ''abc12345'' Deny (Some ''333'') None example_state)
     = False \<and>
   gateway_requests
     (snd (handleCallbackQuery example_config ''abc12345'' Deny (Some ''333'') None example_state))
     = []"
proof -
  have h1: "Some ''333'' = Some ''333''" by simp
  have h2: "''333'' \<noteq> []" by simp
  have h3: "''333'' \<notin> set (case approvers example_config of None \<Rightarrow> [] | Some as \<Rightarrow> as)"
    by (simp add: example_config_def)
  have g: "gateway_requests example_state = []"
    by (simp add: example_state_eq gateway_requests_def)
  have m: "map_of (shortIdMap example_state) ''abc12345'' = Some ''abc12345-6789-def0''"
      "map_of (pending example_state) ''abc12345-6789-def0'' \<noteq> None"
    by (simp_all add: example_state_eq)
  from unauthorized_callback_ignored [OF h1 h2 h3, of "''abc12345''" Deny None example_state] g m
  show ?thesis by simp
qed

theorem unauthorized_callback_counterexample:
  "map_of (shortIdMap example_state) ''abc12345'' = Some ''abc12345-6789-def0'' \<and>
   map_of (pending example_state) ''abc12345-6789-def0'' \<noteq> None \<and>
   approvers example_config = Some [''111'', ''222''] \<and>
   fst (handleCallbackQuery example_config ''abc12345'' Deny (Some '''') None example_state)
     = True \<and>
   gateway_requests
     (snd (handleCallbackQuery example_config ''abc12345'' Deny (Some '''') None example_state))
     = [GatewayRequest ''abc12345-6789-def0'' Deny] \<and>
   fst (handleCallbackQuery example_config ''abc12345'' Deny None None example_state)
     = True \<and>
   gateway_requests
     (snd (handleCallbackQuery example_config ''abc12345'' Deny None None example_state))
     = [GatewayRequest ''abc12345-6789-def0'' Deny]"
  by (simp add: example_state_eq example_config_def handleCallbackQuery_def resolveApproval_def
        gateway_requests_def emit_def Let_def)

text \<open>
  Claim C8. When the short id of a callback maps to a request id (a non-empty one, as an
  empty id is falsy and taken as unmapped) and the callback carries no user id,
  \<^verbatim>\<open>handleCallbackQuery\<close> is \<^verbatim>\<open>resolveApproval\<close> on that request, whatever the
  approver list holds; while the gateway client exists, that sends the resolve request and
  returns whether the gateway accepted it.
\<close>

theorem callback_without_user_skips_authorization:
  assumes "map_of (shortIdMap s) shortId = Some fullId" and "fullId \<noteq> []"
  shows "handleCallbackQuery config shortId action None gw s
           = resolveApproval fullId action gw s \<and>
         (gatewayClient s \<longrightarrow>
            fst (handleCallbackQuery config shortId action None gw s) = (gw = None) \<and>
            gateway_requests (snd (handleCallbackQuery config shortId action None gw s))
              = gateway_requests s @ [GatewayRequest fullId action])"
proof -
  have e: "handleCallbackQuery config shortId action None gw s
             = resolveApproval fullId action gw s"
    using assms by (simp add: handleCallbackQuery_def Let_def)
  show ?thesis
    unfolding e using resolveApproval_connected by blast
qed

theorem callback_without_user_skips_authorization_witness:
  "gateway_requests
     (snd (handleCallbackQuery (example_config\<lparr>approvers := Some []\<rparr>) ''abc12345'' AllowAlways
             None None example_state))
   = [GatewayRequest ''abc12345-6789-def0'' AllowAlways]"
proof -
  have h1: "map_of (shortIdMap example_state) ''abc12345'' = Some ''abc12345-6789-def0''"
    by (simp add: example_state_eq)
  have h2: "''abc12345-6789-def0'' \<noteq> []" by simp
  have c: "gatewayClient example_state" by (simp add: example_state_eq)
  have g: "gateway_requests example_state = []"
    by (simp add: example_state_eq gateway_requests_def)
  from callback_without_user_skips_authorization
         [OF h1 h2, of "example_config\<lparr>approvers := Some []\<rparr>" AllowAlways None] c
  have "gateway_requests
          (snd (handleCallbackQuery (example_config\<lparr>approvers := Some []\<rparr>) ''abc12345''
                  AllowAlways None None example_state))
        = gateway_requests example_state @ [GatewayRequest ''abc12345-6789-def0'' AllowAlways]"
    by blast
  then show ?thesis by (simp add: g)
qed

text \<open>
  Claim C3, evaluated on two approvers that are both notified. Both receive the prompt
  with its buttons, but each successful send overwrites the entry of the request, so the
  pending entry holds the message of the last approver only, and a resolution or a
  timeout edits that one message: the message of approver \<open>111\<close> is never edited and
  keeps its buttons.
\<close>

theorem only_last_recipient_recorded:
  "approvers example_config = Some [''111'', ''222''] \<and>
   filter (\<lambda>e. case e of SendMessage c t k \<Rightarrow> True | _ \<Rightarrow> False) (effects example_state)
     = [SendMessage ''111'' (ExecApprovalMessage example_request)
          (buildInlineKeyboard ''abc12345-6789-def0''),
        SendMessage ''222'' (ExecApprovalMessage example_request)
          (buildInlineKeyboard ''abc12345-6789-def0'')] \<and>
   pending example_state
     = [(''abc12345-6789-def0'',
         \<lparr>telegramMessageId = 11, telegramChatId = ''222'', timeoutId = 1\<rparr>)] \<and>
   message_updates (handleApprovalResolved example_resolved None example_state)
     = [EditMessageText ''222'' 11
          (ResolvedMessage example_request AllowOnce (Some ''111'')) []] \<and>
   message_updates (handleApprovalTimeout ''abc12345-6789-def0'' None example_state)
     = [EditMessageText ''222'' 11 (ExpiredMessage example_request) []]"
  by (simp add: example_state_eq example_config_def example_resolved_def
        handleApprovalResolved_def handleApprovalTimeout_def clearTimeout_def updateMessage_def
        emit_def message_updates_def buildInlineKeyboard_def buildExecApprovalCallbackData_def
        EXEC_APPROVAL_PREFIX_def actionChar_of_def slice_def Let_def)

text \<open>
  Claim C4, evaluated on the same two approvers. Each successful send arms a timer of its
  own and the entry keeps the handle of the last one, so removing the entry, by a
  resolution or by \<^verbatim>\<open>stop\<close>, cancels timer \<open>1\<close> and leaves timer \<open>0\<close> armed for a
  request that has no pending entry.
\<close>

theorem timer_left_armed_after_removal:
  "timers (handleApprovalResolved example_resolved None example_state)
     = [(0, \<lparr>timeout_approvalId = ''abc12345-6789-def0'', timeout_ms = 59000\<rparr>)] \<and>
   pending (handleApprovalResolved example_resolved None example_state) = [] \<and>
   \<not> no_dangling_timer (handleApprovalResolved example_resolved None example_state) \<and>
   timers (stop example_state)
     = [(0, \<lparr>timeout_approvalId = ''abc12345-6789-def0'', timeout_ms = 59000\<rparr>)] \<and>
   pending (stop example_state) = [] \<and>
   \<not> no_dangling_timer (stop example_state)"
  by (simp add: example_state_eq example_resolved_def handleApprovalResolved_def stop_def
        clearTimeout_def updateMessage_def emit_def no_dangling_timer_def slice_def Let_def)

text \<open>
  Claim C9. Let two different pending requests \<open>a\<close> and \<open>b\<close> share their first eight
  characters, the short-id index mapping that prefix to \<open>b\<close>. Resolving \<open>a\<close>, or timing
  it out, deletes the index entry of the prefix without looking at what it maps to:
  \<open>b\<close> is still pending, but its short id is unknown, so every callback for it returns
  false and sends nothing to the gateway.
\<close>

theorem shared_prefix_entry_deleted:
  assumes "map_of (pending s) a = Some pa" and "map_of (pending s) b = Some pb"
    and "a \<noteq> b" and "slice a 0 8 = slice b 0 8"
    and "map_of (shortIdMap s) (slice a 0 8) = Some b"
    and "resolved_id resolved = a"
    and "s' = handleApprovalResolved resolved e s \<or> s' = handleApprovalTimeout a e s"
  shows "map_of (shortIdMap s') (slice b 0 8) = None \<and>
         map_of (pending s') b = Some pb \<and>
         getFullApprovalId (slice b 0 8) s' = None \<and>
         fst (handleCallbackQuery config (slice b 0 8) action userId gw s') = False \<and>
         gateway_requests (snd (handleCallbackQuery config (slice b 0 8) action userId gw s'))
           = gateway_requests s'"
proof -
  have m: "map_of (shortIdMap s') (slice b 0 8) = None"
    using assms
    by (auto simp: handleApprovalResolved_def handleApprovalTimeout_def clearTimeout_def
          Let_def delete_conv' split: option.splits)
  have p: "map_of (pending s') b = Some pb"
    using assms
    by (auto simp: handleApprovalResolved_def handleApprovalTimeout_def clearTimeout_def
          Let_def delete_conv' split: option.splits)
  have c: "handleCallbackQuery config (slice b 0 8) action userId gw s'
             = (False, emit (LogDebug (''telegram exec approvals: unknown shortId '' @ slice b 0 8)) s')"
    using m by (simp add: handleCallbackQuery_def Let_def)
  show ?thesis
    using m p by (simp add: c getFullApprovalId_def)
qed

theorem shared_prefix_entry_deleted_witness:
  "map_of (pending (handleApprovalResolved example_resolved None example_state2))
     ''abc12345-ffff-0000''
   = Some \<lparr>telegramMessageId = 11, telegramChatId = ''222'', timeoutId = 3\<rparr> \<and>
   fst (handleCallbackQuery example_config ''abc12345'' AllowOnce (Some ''111'') None
          (handleApprovalResolved example_resolved None example_state2)) = False"
proof -
  have h1: "map_of (pending example_state2) ''abc12345-6789-def0''
              = Some \<lparr>telegramMessageId = 11, telegramChatId = ''222'', timeoutId = 1\<rparr>"
    by (simp add: example_state2_eq)
  have h2: "map_of (pending example_state2) ''abc12345-ffff-0000''
              = Some \<lparr>telegramMessageId = 11, telegramChatId = ''222'', timeoutId = 3\<rparr>"
    by (simp add: example_state2_eq)
  have h3: "''abc12345-6789-def0'' \<noteq> ''abc12345-ffff-0000''" by simp
  have h4: "slice ''abc12345-6789-def0'' 0 8 = slice ''abc12345-ffff-0000'' 0 8"
    by (simp add: slice_def)
  have h5: "map_of (shortIdMap example_state2) (slice ''abc12345-6789-def0'' 0 8)
              = Some ''abc12345-ffff-0000''"
    by (simp add: example_state2_eq slice_def)
  have h6: "resolved_id example_resolved = ''abc12345-6789-def0''"
    by (simp add: example_resolved_def)
  have h7: "handleApprovalResolved example_resolved None example_state2
              = handleApprovalResolved example_resolved None example_state2
            \<or> handleApprovalResolved example_resolved None example_state2
              = handleApprovalTimeout ''abc12345-6789-def0'' None example_state2"
    by simp
  have s: "slice ''abc12345-ffff-0000'' 0 8 = ''abc12345''" by (simp add: slice_def)
  from shared_prefix_entry_deleted [OF h1 h2 h3 h4 h5 h6 h7, of example_config AllowOnce "Some ''111''" None]
  show ?thesis unfolding s by blast
qed

text \<open>
  Claim C10. When a request passes the filter and every send fails, the pending registry
  and the armed timers are as before, yet the request is cached and the short-id index
  maps its prefix to its id; so, for a non-empty request id and while the gateway client
  exists, a callback with that short id from a user in the approver list sends the
  resolve request for the request.
\<close>

theorem all_sends_fail_leaves_short_id:
  assumes "shouldHandle regex config req"
    and "\<forall>i < length (case approvers config of None \<Rightarrow> [] | Some as \<Rightarrow> as). send_failed (api i)"
    and "s' = handleApprovalRequested regex config api req s"
  shows "pending s' = pending s \<and> timers s' = timers s \<and>
         map_of (requestCache s') (request_id req) = Some req \<and>
         map_of (shortIdMap s') (slice (request_id req) 0 8) = Some (request_id req) \<and>
         (request_id req \<noteq> [] \<and> gatewayClient s
            \<and> u \<in> set (case approvers config of None \<Rightarrow> [] | Some as \<Rightarrow> as)
          \<longrightarrow> fst (handleCallbackQuery config (slice (request_id req) 0 8) action (Some u) gw s')
                = (gw = None) \<and>
              gateway_requests
                (snd (handleCallbackQuery config (slice (request_id req) 0 8) action (Some u) gw s'))
                = gateway_requests s' @ [GatewayRequest (request_id req) action])"
proof -
  let ?as = "case approvers config of None \<Rightarrow> [] | Some as \<Rightarrow> as"
  have f: "\<forall>j < length ?as. send_failed (api (0 + j))" using assms(2) by simp
  note u = requested_unfold [OF assms(1), of api s]
  note n = notifyApprovers_failed [OF f, of req]
  have p: "pending s' = pending s" and t: "timers s' = timers s"
    unfolding assms(3) u by (simp_all add: n)
  have c: "map_of (requestCache s') (request_id req) = Some req"
    unfolding assms(3) u by (simp add: update_conv')
  have m: "map_of (shortIdMap s') (slice (request_id req) 0 8) = Some (request_id req)"
    unfolding assms(3) u by (simp add: update_conv')
  have g: "gatewayClient s' = gatewayClient s"
    unfolding assms(3) u by simp
  have cb: "handleCallbackQuery config (slice (request_id req) 0 8) action (Some u) gw s'
             = resolveApproval (request_id req) action gw s'"
    if "request_id req \<noteq> []" "u \<in> set ?as"
    using that m by (auto simp: handleCallbackQuery_def Let_def list_ex_iff)
  show ?thesis
    using p t c m cb resolveApproval_connected [of s' "request_id req" action gw] g
    by auto
qed

theorem all_sends_fail_leaves_short_id_witness:
  "pending (handleApprovalRequested no_regex example_config failing_api example_request
              (start example_config initial_state)) = [] \<and>
   timers (handleApprovalRequested no_regex example_config failing_api example_request
              (start example_config initial_state)) = [] \<and>
   gateway_requests
     (snd (handleCallbackQuery example_config ''abc12345'' AllowOnce (Some ''111'') None
             (handleApprovalRequested no_regex example_config failing_api example_request
                (start example_config initial_state))))
   = gateway_requests
       (handleApprovalRequested no_regex example_config failing_api example_request
          (start example_config initial_state))
     @ [GatewayRequest ''abc12345-6789-def0'' AllowOnce]"
proof -
  have h1: "shouldHandle no_regex example_config example_request"
    by (simp add: shouldHandle_def agentFilterRejects_def sessionFilterRejects_def
          example_config_def)
  have h2: "\<forall>i < length (case approvers example_config of None \<Rightarrow> [] | Some as \<Rightarrow> as).
              send_failed (failing_api i)"
    by (simp add: failing_api_def)
  have i: "request_id example_request = ''abc12345-6789-def0''"
    by (simp add: example_request_def)
  have s: "slice ''abc12345-6789-def0'' 0 8 = ''abc12345''" by (simp add: slice_def)
  have k: "request_id example_request \<noteq> [] \<and> gatewayClient (start example_config initial_state)
           \<and> ''111'' \<in> set (case approvers example_config of None \<Rightarrow> [] | Some as \<Rightarrow> as)"
    by (simp add: example_request_def example_config_def start_def initial_state_def emit_def
          Let_def)
  have e: "pending (start example_config initial_state) = []"
      "timers (start example_config initial_state) = []"
    by (simp_all add: example_config_def start_def initial_state_def emit_def Let_def)
  from all_sends_fail_leaves_short_id [OF h1 h2 refl, of "start example_config initial_state" "''111''" AllowOnce None] k
  show ?thesis unfolding i s e by blast
qed

section \<open>Properties of the filter\<close>

text \<open>
  Claim C6. For a pattern the regular-expression engine rejects, the session test is the
  substring test and nothing escapes the \<^verbatim>\<open>try\<close>: the body either returns true
  because the substring test succeeded, or throws and the \<^verbatim>\<open>catch\<close> returns the
  substring test, which is false then. So a request whose session key contains the
  pattern passes a filter that lists it, and one whose session key does not contain it
  fails a filter made of that pattern alone.
\<close>

theorem invalid_pattern_substring_fallback:
  assumes "regex p = None"
  shows "sessionFilterTry regex session p
           = (if js_includes session p then Inr True else Inl SyntaxError) \<and>
         sessionFilterMatch regex session p = js_includes session p \<and>
         (enabled config \<and> approvers config = Some (a # as) \<and> \<not> agentFilterRejects config req
            \<and> sessionFilter config = Some sf \<and> p \<in> set sf
            \<and> sessionKey (request req) = Some session \<and> session \<noteq> []
            \<and> js_includes session p
          \<longrightarrow> shouldHandle regex config req) \<and>
         (sessionFilter config = Some [p] \<and> sessionKey (request req) = Some session
            \<and> \<not> js_includes session p
          \<longrightarrow> \<not> shouldHandle regex config req)"
proof -
  have t: "sessionFilterTry regex session p
             = (if js_includes session p then Inr True else Inl SyntaxError)"
    using assms by (simp add: sessionFilterTry_def RegExp_test_def)
  have m: "sessionFilterMatch regex session p = js_includes session p"
    by (simp add: sessionFilterMatch_def t)
  have acc: "shouldHandle regex config req"
    if "enabled config" "approvers config = Some (a # as)" "\<not> agentFilterRejects config req"
      "sessionFilter config = Some sf" "p \<in> set sf" "sessionKey (request req) = Some session"
      "session \<noteq> []" "js_includes session p"
  proof -
    have "list_ex (sessionFilterMatch regex session) sf"
      unfolding list_ex_iff using that(5,8) m by blast
    with that show ?thesis
      by (auto simp: shouldHandle_def sessionFilterRejects_def)
  qed
  have rej: "\<not> shouldHandle regex config req"
    if "sessionFilter config = Some [p]" "sessionKey (request req) = Some session"
      "\<not> js_includes session p"
    using that m by (simp add: shouldHandle_def sessionFilterRejects_def)
  from t m acc rej show ?thesis by blast
qed

theorem invalid_pattern_substring_fallback_witness:
  "sessionFilterMatch no_regex ''[invalid(regex'' ''[invalid(regex''
   \<and> \<not> sessionFilterMatch no_regex ''something-else'' ''[invalid(regex''"
proof -
  have h: "no_regex ''[invalid(regex'' = None" by (simp add: no_regex_def)
  have a: "js_includes ''[invalid(regex'' ''[invalid(regex''" by (simp add: startsWith_def)
  have b: "\<not> js_includes ''something-else'' ''[invalid(regex''" by (simp add: startsWith_def)
  from invalid_pattern_substring_fallback
         [where regex = no_regex and p = "''[invalid(regex''" and session = "''[invalid(regex''",
          OF h]
       invalid_pattern_substring_fallback
         [where regex = no_regex and p = "''[invalid(regex''" and session = "''something-else''",
          OF h]
       a b
  show ?thesis by blast
qed

end
